theory Spec2Isabelle
  imports Complex_Main "HOL-Library.AList"
begin

section \<open>Data model of \<open>pudl.output.ferc1\<close>\<close>

text \<open>
  \<open>NodeId\<close> is the named tuple \<open>(source_table, xbrl_factoid)\<close> that keys the calculation
  graph and the index of the exploded metadata.
\<close>

datatype NodeId = NodeId (source_table: string) (xbrl_factoid: string)

text \<open>
  The exceptions the modelled functions can raise. The payload is whatever the
  exception message of the source reports. Calls to the logger change no value and
  are left out of the model.
\<close>

datatype error =
    KeyError
  | AttributeError
  | ZeroDivisionError
  | AssertionError
  | NetworkXError
  | NetworkXPointlessConcept
  | MergeError
  | ValueError_no_objects_to_concatenate
  | ValueError_non_unique_index
  | ValueError_value_cols "string set"
  | ValueError_bad_seeds "NodeId list"
  | AssertionError_off_ratio string real real
  | ValueError_missing_idx_cols "string list"
  | ValidationError "error list"

text \<open>
  One component of a calculation, as \<open>json.loads\<close> returns it from the
  \<open>calculations\<close> column: \<open>name\<close>, \<open>weight\<close> and \<open>source_tables\<close>. Weights are Python
  floats; they are modelled as real numbers (rounding is outside the model).
\<close>

record calc_component =
  calc_name :: string
  calc_weight :: real
  calc_source_tables :: "string list"

text \<open>
  One row of the exploded metadata. \<open>Index\<close> is \<open>(table_name, xbrl_factoid)\<close>; the
  \<open>calculations\<close> column is kept in parsed form, so the string \<open>"[]"\<close> is the empty list.
\<close>

record meta_row =
  Index :: NodeId
  calculations :: "calc_component list"
  row_type_xbrl :: string
  xbrl_factoid_original :: string
  intra_table_calc_flag :: bool

type_synonym tag_dict = "(string \<times> string) list"

section \<open>\<open>Exploder.value_col\<close>\<close>

text \<open>
  \<open>FERC1_TFR_CLASSES[table_name]().params.reconcile_table_calculations.column_to_check\<close>
  is not part of the sources at hand; the table of transformer parameters is a
  parameter \<open>tfr\<close> of the model, a dictionary from table name to the column to check.
  A table name missing from the dictionary raises \<open>KeyError\<close>.
\<close>

fun collect_value_cols :: "(string \<rightharpoonup> string) \<Rightarrow> string list \<Rightarrow> error + string list" where
  "collect_value_cols tfr [] = Inr []"
| "collect_value_cols tfr (table_name # rest) =
     (case tfr table_name of
        None \<Rightarrow> Inl KeyError
      | Some col \<Rightarrow>
          (case collect_value_cols tfr rest of
             Inl e \<Rightarrow> Inl e
           | Inr value_cols \<Rightarrow> Inr (col # value_cols)))"

definition value_col :: "(string \<rightharpoonup> string) \<Rightarrow> string list \<Rightarrow> error + string" where
  "value_col tfr table_names =
     (case collect_value_cols tfr table_names of
        Inl e \<Rightarrow> Inl e
      | Inr value_cols \<Rightarrow>
          (if length (remdups value_cols) \<noteq> 1
           then Inl (ValueError_value_cols (set value_cols))
           else Inr (hd (remdups value_cols))))"

section \<open>Construction of \<open>XbrlCalculationForestFerc1\<close>\<close>

record XbrlCalculationForestFerc1 =
  exploded_meta :: "meta_row list"
  seeds :: "NodeId list"
  tags :: "(NodeId \<times> tag_dict) list"

definition meta_index :: "meta_row list \<Rightarrow> NodeId list" where
  "meta_index meta = map Index meta"











section \<open>\<open>MetadataExploder\<close>\<close>

text \<open>
  \<open>in_explosion_tables\<close>: \<open>any([True for tbl in source_tables if tbl in
  in_explosion_table_names])\<close>.
\<close>

definition in_explosion_tables :: "string list \<Rightarrow> string list \<Rightarrow> bool" where
  "in_explosion_tables source_tables in_explosion_table_names =
     list_ex (\<lambda>b. b)
       (map (\<lambda>tbl. True) (filter (\<lambda>tbl. tbl \<in> set in_explosion_table_names) source_tables))"

text \<open>
  A row of the calculation component table: the keys of the component, the table and
  factoid of the calculation it belongs to, and the metadata columns merged back on.
\<close>

record calculation_component_row =
  cc_name :: string
  cc_weight :: real
  cc_source_tables :: "string list"
  cc_table_name :: string
  cc_xbrl_factoid :: string
  cc_row_type_xbrl :: string
  cc_xbrl_factoid_original :: string
  cc_intra_table_calc_flag :: bool

text \<open>
  The loop of \<open>convert_calculations_into_calculation_component_table\<close>: one frame per
  metadata row, holding the components of its calculation with \<open>table_name\<close> and
  \<open>xbrl_factoid\<close> assigned; here already concatenated.
\<close>

definition calc_dfs :: "meta_row list \<Rightarrow> (calc_component \<times> string \<times> string) list" where
  "calc_dfs metadata =
     concat (map (\<lambda>r. map (\<lambda>calc. (calc, source_table (Index r), xbrl_factoid (Index r)))
                          (calculations r)) metadata)"

text \<open>
  The row that the left merge on \<open>(xbrl_factoid, table_name)\<close> builds from a component
  and a matching metadata row \<open>m\<close> (whose \<open>calculations\<close> column was dropped).
\<close>

definition component_row ::
  "calc_component \<times> string \<times> string \<Rightarrow> meta_row \<Rightarrow> calculation_component_row" where
  "component_row c m =
     (case c of (calc, tbl, factoid) \<Rightarrow>
        \<lparr>cc_name = calc_name calc, cc_weight = calc_weight calc,
         cc_source_tables = calc_source_tables calc,
         cc_table_name = tbl, cc_xbrl_factoid = factoid,
         cc_row_type_xbrl = row_type_xbrl m,
         cc_xbrl_factoid_original = xbrl_factoid_original m,
         cc_intra_table_calc_flag = intra_table_calc_flag m\<rparr>)"

definition merge_on_factoid_and_table ::
  "meta_row list \<Rightarrow> calc_component \<times> string \<times> string \<Rightarrow> calculation_component_row list" where
  "merge_on_factoid_and_table metadata c =
     (case c of (calc, tbl, factoid) \<Rightarrow>
        map (component_row c)
          (filter (\<lambda>m. xbrl_factoid (Index m) = factoid \<and> source_table (Index m) = tbl)
             metadata))"

text \<open>
  \<open>pd.concat\<close> of an empty list of frames raises \<open>ValueError\<close>. The left merge yields
  one row per matching metadata row.
\<close>

definition convert_calculations_into_calculation_component_table ::
  "meta_row list \<Rightarrow> error + calculation_component_row list" where
  "convert_calculations_into_calculation_component_table metadata =
     (if metadata = [] then Inl ValueError_no_objects_to_concatenate
      else Inr (concat (map (merge_on_factoid_and_table metadata) (calc_dfs metadata))))"

text \<open>\<open>Series.unique\<close>: the distinct values in order of first appearance.\<close>

fun unique :: "'a list \<Rightarrow> 'a list" where
  "unique [] = []"
| "unique (x # xs) = x # filter (\<lambda>y. y \<noteq> x) (unique xs)"

text \<open>The derived column \<open>in_explosion\<close> of a row of the component table.\<close>

definition in_explosion :: "string list \<Rightarrow> calculation_component_row \<Rightarrow> bool" where
  "in_explosion table_names r = in_explosion_tables (cc_source_tables r) table_names"

text \<open>
  \<open>MetadataExploder.redefine_calculations_with_components_out_of_explosion\<close>. The
  result is the rewritten metadata together with the attribute
  \<open>inter_table_components_in_intra_table_calc\<close> that the method stores on the object.
  When no row has any component, the concatenated component table has no
  \<open>source_tables\<close> column and the attribute access raises \<open>AttributeError\<close>.
\<close>

definition redefine_calculations_with_components_out_of_explosion ::
  "string list \<Rightarrow> meta_row list \<Rightarrow> error + (meta_row list \<times> string list)" where
  "redefine_calculations_with_components_out_of_explosion table_names meta_explode =
     (case convert_calculations_into_calculation_component_table meta_explode of
        Inl e \<Rightarrow> Inl e
      | Inr calc_explode \<Rightarrow>
          (if calc_explode = [] then Inl AttributeError
           else
             (let not_in = filter (\<lambda>r. \<not> in_explosion table_names r) calc_explode;
                  not_in_explosion_xbrl_factoids = unique (map cc_xbrl_factoid not_in);
                  inter_table_components_in_intra_table_calc = unique (map cc_name not_in)
              in Inr (map (\<lambda>m. if xbrl_factoid (Index m) \<in> set not_in_explosion_xbrl_factoids
                                then m\<lparr>calculations := [], row_type_xbrl := ''reported_value''\<rparr>
                                else m) meta_explode,
                      inter_table_components_in_intra_table_calc))))"

section \<open>\<open>Exploder.reconcile_intertable_calculations\<close>\<close>



















section \<open>Directed graphs\<close>

text \<open>
  The attribute dictionary of a node has the keys \<open>xbrl_factoid_original\<close>, \<open>weight\<close>
  and \<open>tags\<close>; a key that is absent is \<open>None\<close>, and \<open>no_attrs\<close> is the empty dictionary.
\<close>

record node_attrs =
  attr_xbrl_factoid_original :: "string option"
  attr_weight :: "real option"
  attr_tags :: "tag_dict option"

definition no_attrs :: node_attrs where
  "no_attrs = \<lparr>attr_xbrl_factoid_original = None, attr_weight = None, attr_tags = None\<rparr>"

text \<open>
  A \<open>networkx.DiGraph\<close>: the nodes with their attribute dictionaries and the edges,
  both in insertion order. The operations below follow the documented behaviour of
  the networkx methods the module calls.
\<close>

record digraph =
  nodes :: "(NodeId \<times> node_attrs) list"
  edges :: "(NodeId \<times> NodeId) list"

definition empty_digraph :: digraph where
  "empty_digraph = \<lparr>nodes = [], edges = []\<rparr>"

definition node_list :: "digraph \<Rightarrow> NodeId list" where
  "node_list g = map fst (nodes g)"

definition node_data :: "digraph \<Rightarrow> NodeId \<Rightarrow> node_attrs" where
  "node_data g n = (case map_of (nodes g) n of None \<Rightarrow> no_attrs | Some a \<Rightarrow> a)"

definition add_node :: "NodeId \<Rightarrow> digraph \<Rightarrow> digraph" where
  "add_node n g = (if n \<in> set (node_list g) then g else g\<lparr>nodes := nodes g @ [(n, no_attrs)]\<rparr>)"

definition add_edge :: "NodeId \<Rightarrow> NodeId \<Rightarrow> digraph \<Rightarrow> digraph" where
  "add_edge u v g =
     (let g' = add_node v (add_node u g)
      in if (u, v) \<in> set (edges g') then g' else g'\<lparr>edges := edges g' @ [(u, v)]\<rparr>)"

definition remove_nodes_from :: "NodeId list \<Rightarrow> digraph \<Rightarrow> digraph" where
  "remove_nodes_from ns g =
     \<lparr>nodes = filter (\<lambda>(n, a). n \<notin> set ns) (nodes g),
      edges = filter (\<lambda>(u, v). u \<notin> set ns \<and> v \<notin> set ns) (edges g)\<rparr>"

definition successors :: "digraph \<Rightarrow> NodeId \<Rightarrow> NodeId list" where
  "successors g n = map snd (filter (\<lambda>e. fst e = n) (edges g))"

definition predecessors :: "digraph \<Rightarrow> NodeId \<Rightarrow> NodeId list" where
  "predecessors g n = map fst (filter (\<lambda>e. snd e = n) (edges g))"

definition in_degree :: "digraph \<Rightarrow> NodeId \<Rightarrow> nat" where
  "in_degree g n = length (predecessors g n)"

definition out_degree :: "digraph \<Rightarrow> NodeId \<Rightarrow> nat" where
  "out_degree g n = length (successors g n)"

text \<open>\<open>dict.update\<close> on attribute dictionaries: the keys of \<open>d\<close> overwrite those of \<open>a\<close>.\<close>

definition attrs_update :: "node_attrs \<Rightarrow> node_attrs \<Rightarrow> node_attrs" where
  "attrs_update a d =
     \<lparr>attr_xbrl_factoid_original =
        (case attr_xbrl_factoid_original d of None \<Rightarrow> attr_xbrl_factoid_original a | Some v \<Rightarrow> Some v),
      attr_weight = (case attr_weight d of None \<Rightarrow> attr_weight a | Some v \<Rightarrow> Some v),
      attr_tags = (case attr_tags d of None \<Rightarrow> attr_tags a | Some v \<Rightarrow> Some v)\<rparr>"

text \<open>\<open>nx.set_node_attributes\<close>: nodes of \<open>attrs\<close> that are not in the graph are skipped.\<close>

definition set_node_attributes :: "digraph \<Rightarrow> (NodeId \<times> node_attrs) list \<Rightarrow> digraph" where
  "set_node_attributes g attrs =
     g\<lparr>nodes := map (\<lambda>(n, a). (n, case map_of attrs n of None \<Rightarrow> a | Some d \<Rightarrow> attrs_update a d))
                     (nodes g)\<rparr>"

text \<open>
  \<open>nx.descendants\<close> and \<open>nx.ancestors\<close>: the nodes other than the source that are
  reachable from it (that reach it) along at least one edge; \<open>NetworkXError\<close> when the
  source is not a node of the graph. The result is a set; it is listed in node order.
\<close>

definition nx_descendants :: "digraph \<Rightarrow> NodeId \<Rightarrow> error + NodeId list" where
  "nx_descendants g source =
     (if source \<notin> set (node_list g) then Inl NetworkXError
      else Inr (filter (\<lambda>n. n \<noteq> source \<and> (source, n) \<in> (set (edges g))\<^sup>+) (node_list g)))"

definition nx_ancestors :: "digraph \<Rightarrow> NodeId \<Rightarrow> error + NodeId list" where
  "nx_ancestors g source =
     (if source \<notin> set (node_list g) then Inl NetworkXError
      else Inr (filter (\<lambda>n. n \<noteq> source \<and> (n, source) \<in> (set (edges g))\<^sup>+) (node_list g)))"

text \<open>A loop whose body may raise: the first error ends it.\<close>

fun for_each :: "('s \<Rightarrow> 'a \<Rightarrow> error + 's) \<Rightarrow> 'a list \<Rightarrow> 's \<Rightarrow> error + 's" where
  "for_each body [] s = Inr s"
| "for_each body (x # xs) s =
     (case body s x of Inl e \<Rightarrow> Inl e | Inr s' \<Rightarrow> for_each body xs s')"

section \<open>\<open>XbrlCalculationForestFerc1.exploded_meta_to_digraph\<close>\<close>

text \<open>
  Truth values as Python takes them in \<open>if not d.get(key, False)\<close>: an absent key, an
  empty string and the number zero are false.
\<close>

definition truthy_str :: "string option \<Rightarrow> bool" where
  "truthy_str v = (case v of None \<Rightarrow> False | Some s \<Rightarrow> s \<noteq> [])"

definition truthy_weight :: "real option \<Rightarrow> bool" where
  "truthy_weight v = (case v of None \<Rightarrow> False | Some w \<Rightarrow> w \<noteq> 0)"

type_synonym attrs_dict = "(NodeId \<times> node_attrs) list"

definition attrs_get :: "attrs_dict \<Rightarrow> NodeId \<Rightarrow> node_attrs" where
  "attrs_get attrs n = (case map_of attrs n of None \<Rightarrow> no_attrs | Some a \<Rightarrow> a)"

text \<open>\<open>if not attrs.get(node, False): attrs[node] = {}\<close>\<close>

definition attrs_ensure :: "attrs_dict \<Rightarrow> NodeId \<Rightarrow> attrs_dict" where
  "attrs_ensure attrs n =
     (if attrs_get attrs n = no_attrs then AList.update n no_attrs attrs else attrs)"

text \<open>\<open>dict(tags.loc[node])\<close>, the empty dictionary on \<open>KeyError\<close>.\<close>

definition tags_loc :: "(NodeId \<times> tag_dict) list \<Rightarrow> NodeId \<Rightarrow> tag_dict" where
  "tags_loc tgs n = (case map_of tgs n of None \<Rightarrow> [] | Some d \<Rightarrow> d)"

text \<open>
  The body of the inner loop over the components of one calculation. When the
  weights differ and their product is \<open>-1.0\<close>, the statement
  \<open>attrs[to_node]["weight"] == -1.0\<close> is a comparison whose value is dropped: the
  dictionary is left as it is.
\<close>

definition add_calc ::
  "(NodeId \<times> tag_dict) list \<Rightarrow> NodeId \<Rightarrow> digraph \<times> attrs_dict \<Rightarrow> calc_component \<Rightarrow>
     error + digraph \<times> attrs_dict" where
  "add_calc tgs from_node st calc =
     (case st of (forest, attrs0) \<Rightarrow>
        if length (calc_source_tables calc) \<noteq> 1 then Inl AssertionError
        else
          (let to_node = NodeId (calc_source_tables calc ! 0) (calc_name calc);
               attrs1 = attrs_ensure attrs0 to_node;
               a = attrs_get attrs1 to_node;
               weighted =
                 (if \<not> truthy_weight (attr_weight a)
                  then Inr (a\<lparr>attr_weight := Some (calc_weight calc)\<rparr>)
                  else if the (attr_weight a) \<noteq> calc_weight calc
                  then (if the (attr_weight a) * calc_weight calc \<noteq> - 1
                        then Inl AssertionError
                        else Inr a)
                  else Inr a)
           in case weighted of
                Inl e \<Rightarrow> Inl e
              | Inr a' \<Rightarrow>
                  Inr (add_edge from_node to_node forest,
                       AList.update to_node (a'\<lparr>attr_tags := Some (tags_loc tgs to_node)\<rparr>)
                         attrs1)))"

text \<open>The body of the outer loop over the rows of the exploded metadata.\<close>

definition add_row ::
  "(NodeId \<times> tag_dict) list \<Rightarrow> digraph \<times> attrs_dict \<Rightarrow> meta_row \<Rightarrow> error + digraph \<times> attrs_dict" where
  "add_row tgs st row =
     (case st of (forest, attrs0) \<Rightarrow>
        (let from_node = Index row;
             attrs1 = attrs_ensure attrs0 from_node;
             a = attrs_get attrs1 from_node;
             named =
               (if \<not> truthy_str (attr_xbrl_factoid_original a)
                then Inr (a\<lparr>attr_xbrl_factoid_original := Some (xbrl_factoid_original row)\<rparr>)
                else if attr_xbrl_factoid_original a \<noteq> Some (xbrl_factoid_original row)
                then Inl AssertionError
                else Inr a)
         in case named of
              Inl e \<Rightarrow> Inl e
            | Inr a' \<Rightarrow>
                for_each (add_calc tgs from_node) (calculations row)
                  (forest,
                   AList.update from_node (a'\<lparr>attr_tags := Some (tags_loc tgs from_node)\<rparr>)
                     attrs1)))"

definition bad_nodes :: "NodeId list" where
  "bad_nodes = [NodeId ''balance_sheet_assets_ferc1'' ''special_funds_all'',
                NodeId ''balance_sheet_assets_ferc1'' ''nuclear_fuel'']"

definition exploded_meta_to_digraph ::
  "meta_row list \<Rightarrow> (NodeId \<times> tag_dict) list \<Rightarrow> error + digraph" where
  "exploded_meta_to_digraph meta tgs =
     (case for_each (add_row tgs) meta (empty_digraph, []) of
        Inl e \<Rightarrow> Inl e
      | Inr (forest, attrs) \<Rightarrow>
          Inr (remove_nodes_from bad_nodes (set_node_attributes forest attrs)))"

section \<open>Full and seeded digraph\<close>

definition full_digraph :: "XbrlCalculationForestFerc1 \<Rightarrow> error + digraph" where
  "full_digraph self = exploded_meta_to_digraph (exploded_meta self) (tags self)"

text \<open>
  The loop that collects the seeded nodes. \<open>self.full_digraph\<close> is a property: it is
  rebuilt in every iteration. The Python set is kept as a list without duplicates,
  in order of first insertion (the order Python lists a set in is not specified).
\<close>

definition set_union :: "'a list \<Rightarrow> 'a list \<Rightarrow> 'a list" where
  "set_union xs ys = xs @ remdups (filter (\<lambda>y. y \<notin> set xs) ys)"

definition add_seed :: "XbrlCalculationForestFerc1 \<Rightarrow> NodeId list \<Rightarrow> NodeId \<Rightarrow> error + NodeId list" where
  "add_seed self seeded_nodes seed =
     (case full_digraph self of
        Inl e \<Rightarrow> Inl e
      | Inr g \<Rightarrow>
          (case nx_descendants g seed of
             Inl e \<Rightarrow> Inl e
           | Inr ds \<Rightarrow> Inr (set_union (set_union seeded_nodes [seed]) ds)))"

text \<open>\<open>exploded_meta.loc[labels]\<close>: the rows of each label in turn, \<open>KeyError\<close> for a label
  that is not in the index.\<close>

definition loc_rows :: "meta_row list \<Rightarrow> NodeId list \<Rightarrow> error + meta_row list" where
  "loc_rows meta labels =
     (if \<exists>l \<in> set labels. l \<notin> set (meta_index meta) then Inl KeyError
      else Inr (concat (map (\<lambda>l. filter (\<lambda>r. Index r = l) meta) labels)))"

definition seeded_digraph :: "XbrlCalculationForestFerc1 \<Rightarrow> error + digraph" where
  "seeded_digraph self =
     (case for_each (add_seed self) (seeds self) [] of
        Inl e \<Rightarrow> Inl e
      | Inr seeded_nodes \<Rightarrow>
          (case loc_rows (exploded_meta self) seeded_nodes of
             Inl e \<Rightarrow> Inl e
           | Inr rows \<Rightarrow> exploded_meta_to_digraph rows (tags self)))"

section \<open>Pruning the seeded digraph\<close>

definition endswith :: "string \<Rightarrow> string \<Rightarrow> bool" where
  "endswith s suffix \<longleftrightarrow>
     length suffix \<le> length s \<and> drop (length s - length suffix) s = suffix"

definition roots :: "digraph \<Rightarrow> NodeId list" where
  "roots graph = filter (\<lambda>n. in_degree graph n = 0) (node_list graph)"

definition leaves :: "digraph \<Rightarrow> NodeId list" where
  "leaves graph = filter (\<lambda>n. out_degree graph n = 0) (node_list graph)"

definition stepchildren_of :: "digraph \<Rightarrow> NodeId list" where
  "stepchildren_of seeded = filter (\<lambda>n. in_degree seeded n > 1) (node_list seeded)"

text \<open>
  \<open>passthroughs\<close>, as a function of the seeded digraph: the nodes with in-degree 1
  and out-degree 2 one of whose successors is their own correction, the node of the
  same table whose factoid is the node's factoid followed by \<open>_correction\<close>. The
  source returns the members of a set; they are listed here in node order.
\<close>

definition passthroughs_of :: "digraph \<Rightarrow> NodeId list" where
  "passthroughs_of seeded =
     (let has_one_parent = filter (\<lambda>n. in_degree seeded n = 1) (node_list seeded);
          may_have_one_child = filter (\<lambda>n. out_degree seeded n = 2) (node_list seeded);
          has_one_child = concat (map (\<lambda>node.
              map (\<lambda>child. node)
                (filter (\<lambda>child. source_table node = source_table child
                          \<and> xbrl_factoid child = xbrl_factoid node @ ''_correction'')
                   (successors seeded node))) may_have_one_child)
      in filter (\<lambda>n. n \<in> set has_one_child) has_one_parent)"

text \<open>
  A Python iterator holds the items not yet consumed; \<open>list(it)\<close> returns them and
  leaves the iterator exhausted.
\<close>

definition list_of_iterator :: "'a list \<Rightarrow> 'a list \<times> 'a list" where
  "list_of_iterator it = (it, [])"

text \<open>
  The body of the loop over the passthrough nodes in \<open>forest\<close>. \<open>successors\<close> is the
  iterator that \<open>forest.successors(node)\<close> returns; \<open>len(list(successors))\<close> consumes
  it, so \<open>forest.remove_nodes_from(successors)\<close> iterates over what is left of it.
\<close>

definition replace_passthrough :: "digraph \<Rightarrow> NodeId \<Rightarrow> error + digraph" where
  "replace_passthrough forest node =
     (if node \<notin> set (node_list forest) then Inl NetworkXError
      else
        (let parent = predecessors forest node
         in if length parent \<noteq> 1 then Inl AssertionError
            else
              (case list_of_iterator (successors forest node) of (listed, successors_left) \<Rightarrow>
                 if length listed \<noteq> 2 then Inl AssertionError
                 else
                   (let child = filter (\<lambda>n. \<not> endswith (xbrl_factoid n) ''_correction'')
                                  (successors forest node)
                    in if length child \<noteq> 1 then Inl AssertionError
                       else Inr (add_edge (parent ! 0) (child ! 0)
                                   (remove_nodes_from successors_left forest))))))"

text \<open>
  \<open>forest\<close>, as a function of the seeded digraph. \<open>nx.is_forest\<close> raises
  \<open>NetworkXPointlessConcept\<close> on a graph without nodes; otherwise its result only
  decides whether an error is logged, and the graph is returned either way.
\<close>

definition forest_of :: "digraph \<Rightarrow> error + digraph" where
  "forest_of seeded =
     (case for_each replace_passthrough (passthroughs_of seeded) seeded of
        Inl e \<Rightarrow> Inl e
      | Inr forest \<Rightarrow> if nodes forest = [] then Inl NetworkXPointlessConcept else Inr forest)"

definition forest :: "XbrlCalculationForestFerc1 \<Rightarrow> error + digraph" where
  "forest self = (case seeded_digraph self of Inl e \<Rightarrow> Inl e | Inr seeded \<Rightarrow> forest_of seeded)"

definition passthroughs :: "XbrlCalculationForestFerc1 \<Rightarrow> error + NodeId list" where
  "passthroughs self =
     (case seeded_digraph self of Inl e \<Rightarrow> Inl e | Inr seeded \<Rightarrow> Inr (passthroughs_of seeded))"

definition stepchildren :: "XbrlCalculationForestFerc1 \<Rightarrow> error + NodeId list" where
  "stepchildren self =
     (case seeded_digraph self of Inl e \<Rightarrow> Inl e | Inr seeded \<Rightarrow> Inr (stepchildren_of seeded))"

section \<open>\<open>leafy_meta\<close> and \<open>leafy_data\<close>\<close>

text \<open>
  The dictionary comprehension that maps each leaf to a root it descends from: a
  later root overwrites an earlier one.
\<close>

definition leaf_to_root_map ::
  "digraph \<Rightarrow> NodeId list \<Rightarrow> NodeId list \<Rightarrow> error + (NodeId \<times> NodeId) list" where
  "leaf_to_root_map pruned_forest lvs rts =
     for_each (\<lambda>m (leaf, root_node).
                 case nx_descendants pruned_forest root_node of
                   Inl e \<Rightarrow> Inl e
                 | Inr ds \<Rightarrow> Inr (if leaf \<in> set ds then AList.update leaf root_node m else m))
       (List.product lvs rts) []"

text \<open>\<open>leaf_tags |= tags\<close>: the keys of the right dictionary overwrite.\<close>

definition dict_union :: "tag_dict \<Rightarrow> tag_dict \<Rightarrow> tag_dict" where
  "dict_union leaf_tags d = fold (\<lambda>(k, v). AList.update k v) d leaf_tags"

text \<open>
  The body of the loop over the ancestors of a leaf. \<open>nodes[node]["tags"]\<close> raises
  \<open>KeyError\<close> when the node has no tags; a node without a (non-zero) weight must be a
  root and counts with weight \<open>1.0\<close>.
\<close>

definition propagate ::
  "digraph \<Rightarrow> NodeId list \<Rightarrow> tag_dict \<times> real \<Rightarrow> NodeId \<Rightarrow> error + tag_dict \<times> real" where
  "propagate pruned_forest rts st node =
     (case st of (leaf_tags, leaf_weight) \<Rightarrow>
        (case attr_tags (node_data pruned_forest node) of
           None \<Rightarrow> Inl KeyError
         | Some node_tags \<Rightarrow>
             if \<not> truthy_weight (attr_weight (node_data pruned_forest node))
             then (if node \<notin> set rts then Inl AssertionError
                   else Inr (dict_union leaf_tags node_tags, leaf_weight * 1))
             else Inr (dict_union leaf_tags node_tags,
                       leaf_weight * the (attr_weight (node_data pruned_forest node)))))"

record leaf_attrs =
  la_xbrl_factoid_original :: string
  la_weight :: real
  la_tags :: tag_dict
  la_source_table :: string
  la_xbrl_factoid :: string

text \<open>The body of the loop over the leaves: the row of one leaf.\<close>

definition leaf_row :: "digraph \<Rightarrow> NodeId list \<Rightarrow> NodeId \<Rightarrow> error + leaf_attrs" where
  "leaf_row pruned_forest rts leaf =
     (let leaf_weight = (case attr_weight (node_data pruned_forest leaf) of
                           None \<Rightarrow> 1 | Some w \<Rightarrow> w)
      in case nx_ancestors pruned_forest leaf of
           Inl e \<Rightarrow> Inl e
         | Inr ancs \<Rightarrow>
             (case for_each (propagate pruned_forest rts) ancs ([], leaf_weight) of
                Inl e \<Rightarrow> Inl e
              | Inr (leaf_tags, w) \<Rightarrow>
                  (case attr_xbrl_factoid_original (node_data pruned_forest leaf) of
                     None \<Rightarrow> Inl KeyError
                   | Some orig \<Rightarrow>
                       Inr \<lparr>la_xbrl_factoid_original = orig, la_weight = w,
                            la_tags = leaf_tags, la_source_table = source_table leaf,
                            la_xbrl_factoid = xbrl_factoid leaf\<rparr>)))"

record leafy_meta_row =
  lm_source_table :: string
  lm_xbrl_factoid :: string
  lm_root_table :: string
  lm_root_xbrl_factoid :: string
  lm_xbrl_factoid_original :: string
  lm_weight :: real
  lm_tags :: tag_dict

definition merge_leaf :: "NodeId \<times> NodeId \<Rightarrow> leaf_attrs \<Rightarrow> leafy_meta_row" where
  "merge_leaf lr la =
     (case lr of (leaf, root_node) \<Rightarrow>
        \<lparr>lm_source_table = source_table leaf, lm_xbrl_factoid = xbrl_factoid leaf,
         lm_root_table = source_table root_node, lm_root_xbrl_factoid = xbrl_factoid root_node,
         lm_xbrl_factoid_original = la_xbrl_factoid_original la,
         lm_weight = la_weight la, lm_tags = la_tags la\<rparr>)"

text \<open>
  \<open>leafy_meta\<close>, as a function of the forest. \<open>pd.concat\<close> of no leaf rows raises
  \<open>ValueError\<close>; with no leaf mapped to a root the left frame has no columns and the
  merge raises \<open>MergeError\<close>. The merge is the inner join on \<open>source_table\<close> and
  \<open>xbrl_factoid\<close>.
\<close>

definition leafy_meta_of :: "digraph \<Rightarrow> error + leafy_meta_row list" where
  "leafy_meta_of frst =
     (let lvs = leaves frst; rts = roots frst; pruned_forest = frst
      in case leaf_to_root_map pruned_forest lvs rts of
           Inl e \<Rightarrow> Inl e
         | Inr leaf_to_root \<Rightarrow>
             (case for_each (\<lambda>leaf_rows leaf.
                       case leaf_row pruned_forest rts leaf of
                         Inl e \<Rightarrow> Inl e
                       | Inr la \<Rightarrow> Inr (leaf_rows @ [la])) lvs [] of
                Inl e \<Rightarrow> Inl e
              | Inr leaf_rows \<Rightarrow>
                  if leaf_rows = [] then Inl ValueError_no_objects_to_concatenate
                  else if leaf_to_root = [] then Inl MergeError
                  else Inr (concat (map (\<lambda>lr.
                          map (merge_leaf lr)
                            (filter (\<lambda>la. NodeId (la_source_table la) (la_xbrl_factoid la) = fst lr)
                               leaf_rows)) leaf_to_root))))"

definition leafy_meta :: "XbrlCalculationForestFerc1 \<Rightarrow> error + leafy_meta_row list" where
  "leafy_meta self = (case forest self of Inl e \<Rightarrow> Inl e | Inr frst \<Rightarrow> leafy_meta_of frst)"


text \<open>
  A row of the exploded data handed to \<open>leafy_data\<close>, with its two balance columns,
  and a row of the result: the leaf metadata, the matching data row (\<open>None\<close> where the
  left join found none, all its columns being null then) and the two assigned
  balance columns.
\<close>

record balance_row =
  b_table_name :: string
  b_xbrl_factoid :: string
  starting_balance :: "real option"
  ending_balance :: "real option"

record 'a leafy_data_row =
  ld_meta :: leafy_meta_row
  ld_data :: "'a option"
  ld_starting_balance :: "real option"
  ld_ending_balance :: "real option"

definition nan_mul :: "real option \<Rightarrow> real \<Rightarrow> real option" where
  "nan_mul a w = map_option (\<lambda>x. x * w) a"

text \<open>The left join of the leaf metadata with the data on table and factoid.\<close>

definition merge_left ::
  "leafy_meta_row list \<Rightarrow> 'a balance_row_scheme list \<Rightarrow>
     (leafy_meta_row \<times> 'a balance_row_scheme option) list" where
  "merge_left left right =
     concat (map (\<lambda>m.
        (let matches = filter (\<lambda>d. b_table_name d = lm_source_table m
                                  \<and> b_xbrl_factoid d = lm_xbrl_factoid m) right
         in if matches = [] then [(m, None)] else map (\<lambda>d. (m, Some d)) matches)) left)"

text \<open>
  \<open>assign(starting_balance=..., ending_balance=...)\<close>: the columns are assigned in
  order, and the second expression reads \<open>x.starting_balance\<close> of the frame in which
  the first has already been assigned.
\<close>

definition assign_balances ::
  "leafy_meta_row \<times> 'a balance_row_scheme option \<Rightarrow> 'a balance_row_scheme leafy_data_row" where
  "assign_balances md =
     (case md of (m, d) \<Rightarrow>
        (let x_starting_balance = (case d of None \<Rightarrow> None | Some r \<Rightarrow> starting_balance r);
             starting_balance' = nan_mul x_starting_balance (lm_weight m);
             ending_balance' = nan_mul starting_balance' (lm_weight m)
         in \<lparr>ld_meta = m, ld_data = d, ld_starting_balance = starting_balance',
              ld_ending_balance = ending_balance'\<rparr>))"

definition leafy_data_of ::
  "leafy_meta_row list \<Rightarrow> 'a balance_row_scheme list \<Rightarrow>
     error + 'a balance_row_scheme leafy_data_row list" where
  "leafy_data_of meta exploded_data =
     (if \<not> distinct (map (\<lambda>m. (lm_source_table m, lm_xbrl_factoid m)) meta) then Inl MergeError
      else Inr (map assign_balances (merge_left meta exploded_data)))"

definition leafy_data ::
  "XbrlCalculationForestFerc1 \<Rightarrow> 'a balance_row_scheme list \<Rightarrow>
     error + 'a balance_row_scheme leafy_data_row list" where
  "leafy_data self exploded_data =
     (case leafy_meta self of Inl e \<Rightarrow> Inl e | Inr meta \<Rightarrow> leafy_data_of meta exploded_data)"

section \<open>Theorems\<close>

subsection \<open>Value column\<close>

lemma collect_value_cols_known:
  "set table_names \<subseteq> dom tfr \<Longrightarrow>
   collect_value_cols tfr table_names = Inr (map (\<lambda>t. the (tfr t)) table_names)"
  by (induction table_names) (auto split: option.splits)

lemma remdups_singleton: "set xs = {c} \<Longrightarrow> remdups xs = [c]"
proof -
  assume h: "set xs = {c}"
  have d: "distinct (remdups xs)" by simp
  have s: "set (remdups xs) = {c}" using h by simp
  have "length (remdups xs) = card (set xs)"
    by (rule length_remdups_card_conv)
  then have "length (remdups xs) = 1" using h by simp
  then obtain y where y: "remdups xs = [y]"
    by (cases "remdups xs") auto
  with s show ?thesis by auto
qed

text \<open>
  C9. For a group of tables known to the transformer table, \<open>value_col\<close> raises the
  \<open>ValueError\<close> whenever the number of distinct value-column names of the group is
  not 1, and returns the name when there is exactly one.
\<close>

theorem value_col_unique:
  assumes "set table_names \<subseteq> dom tfr"
  shows "(card ((\<lambda>t. the (tfr t)) ` set table_names) \<noteq> 1 \<longrightarrow>
            value_col tfr table_names =
              Inl (ValueError_value_cols ((\<lambda>t. the (tfr t)) ` set table_names)))
       \<and> (\<forall>c. (\<lambda>t. the (tfr t)) ` set table_names = {c} \<longrightarrow>
            value_col tfr table_names = Inr c)"
proof -
  let ?cols = "map (\<lambda>t. the (tfr t)) table_names"
  have c: "collect_value_cols tfr table_names = Inr ?cols"
    using assms by (rule collect_value_cols_known)
  have len: "length (remdups ?cols) = card ((\<lambda>t. the (tfr t)) ` set table_names)"
    by (simp add: length_remdups_card_conv)
  have one: "\<And>c. (\<lambda>t. the (tfr t)) ` set table_names = {c} \<Longrightarrow> remdups ?cols = [c]"
    by (rule remdups_singleton) simp
  show ?thesis
  proof (intro conjI allI impI)
    assume "card ((\<lambda>t. the (tfr t)) ` set table_names) \<noteq> 1"
    then show "value_col tfr table_names =
        Inl (ValueError_value_cols ((\<lambda>t. the (tfr t)) ` set table_names))"
      using c len by (simp add: value_col_def)
  next
    fix c assume h: "(\<lambda>t. the (tfr t)) ` set table_names = {c}"
    then have "remdups ?cols = [c]" by (rule one)
    then show "value_col tfr table_names = Inr c"
      using c by (simp add: value_col_def)
  qed
qed

theorem value_col_unique_witness:
  "value_col [''a'' \<mapsto> ''ending_balance'', ''b'' \<mapsto> ''ending_balance''] [''a'', ''b'']
     = Inr ''ending_balance''
   \<and> value_col [''a'' \<mapsto> ''ending_balance'', ''b'' \<mapsto> ''dollar_value''] [''a'', ''b'']
     = Inl (ValueError_value_cols {''ending_balance'', ''dollar_value''})
   \<and> value_col [''a'' \<mapsto> ''ending_balance''] [] = Inl (ValueError_value_cols {})"
proof -
  let ?t1 = "[''a'' \<mapsto> ''ending_balance'', ''b'' \<mapsto> ''ending_balance'']"
  let ?t2 = "[''a'' \<mapsto> ''ending_balance'', ''b'' \<mapsto> ''dollar_value'']"
  let ?t3 = "[''a'' \<mapsto> ''ending_balance'']"
  have 1: "value_col ?t1 [''a'', ''b''] = Inr ''ending_balance''"
    using value_col_unique [of "[''a'', ''b'']" ?t1] by simp
  have 2: "value_col ?t2 [''a'', ''b'']
      = Inl (ValueError_value_cols {''ending_balance'', ''dollar_value''})"
    using value_col_unique [of "[''a'', ''b'']" ?t2] by (simp add: insert_commute)
  have 3: "value_col ?t3 [] = Inl (ValueError_value_cols {})"
    using value_col_unique [of "[]" ?t3] by simp
  from 1 2 3 show ?thesis by blast
qed

subsection \<open>Seed validation\<close>




subsection \<open>Metadata explosion\<close>

lemma in_explosion_tables_iff:
  "in_explosion_tables source_tables names \<longleftrightarrow> (\<exists>tbl \<in> set source_tables. tbl \<in> set names)"
  by (auto simp: in_explosion_tables_def list_ex_iff)

lemma set_unique: "set (unique xs) = set xs"
  by (induction xs) auto

lemma calc_dfs_mem:
  "(calc, tbl, factoid) \<in> set (calc_dfs metadata) \<longleftrightarrow>
   (\<exists>r \<in> set metadata. calc \<in> set (calculations r) \<and> tbl = source_table (Index r)
        \<and> factoid = xbrl_factoid (Index r))"
  by (auto simp: calc_dfs_def)

lemma convert_mem:
  assumes "convert_calculations_into_calculation_component_table metadata = Inr calc_explode"
  shows "row \<in> set calc_explode \<longleftrightarrow>
         (\<exists>r \<in> set metadata. \<exists>calc \<in> set (calculations r). \<exists>m \<in> set metadata.
             Index m = Index r \<and>
             row = component_row (calc, source_table (Index r), xbrl_factoid (Index r)) m)"
proof -
  have ne: "metadata \<noteq> []"
    using assms
    by (auto simp: convert_calculations_into_calculation_component_table_def split: if_splits)
  then have ce: "calc_explode = concat (map (merge_on_factoid_and_table metadata) (calc_dfs metadata))"
    using assms by (simp add: convert_calculations_into_calculation_component_table_def)
  have idx: "\<And>m r. (xbrl_factoid (Index m) = xbrl_factoid (Index r)
                 \<and> source_table (Index m) = source_table (Index r)) \<longleftrightarrow> Index m = Index r"
    by (auto simp: NodeId.expand)
  show ?thesis
    unfolding ce
    by (auto simp: calc_dfs_def merge_on_factoid_and_table_def idx)
qed

lemma convert_not_in_factoids:
  assumes "convert_calculations_into_calculation_component_table metadata = Inr calc_explode"
  shows "cc_xbrl_factoid ` {r \<in> set calc_explode. \<not> in_explosion names r} =
         {f. \<exists>r \<in> set metadata. xbrl_factoid (Index r) = f \<and> (\<exists>calc \<in> set (calculations r).
            \<not> in_explosion_tables (calc_source_tables calc) names)}"
    (is "?L = ?R")
proof
  show "?L \<subseteq> ?R"
    by (fastforce simp: convert_mem [OF assms] in_explosion_def component_row_def)
next
  show "?R \<subseteq> ?L"
  proof
    fix f assume "f \<in> ?R"
    then obtain r calc where r: "r \<in> set metadata" "calc \<in> set (calculations r)"
      "\<not> in_explosion_tables (calc_source_tables calc) names" "xbrl_factoid (Index r) = f"
      by blast
    let ?row = "component_row (calc, source_table (Index r), xbrl_factoid (Index r)) r"
    have "?row \<in> set calc_explode"
      unfolding convert_mem [OF assms] using r by blast
    moreover have "\<not> in_explosion names ?row"
      using r by (simp add: in_explosion_def component_row_def)
    moreover have "cc_xbrl_factoid ?row = f" using r by (simp add: component_row_def)
    ultimately show "f \<in> ?L" by force
  qed
qed

lemma convert_nonempty:
  assumes "r \<in> set metadata" "calculations r \<noteq> []"
  shows "\<exists>calc_explode. convert_calculations_into_calculation_component_table metadata
           = Inr calc_explode \<and> calc_explode \<noteq> []"
proof -
  from assms obtain calc where c: "calc \<in> set (calculations r)"
    by (cases "calculations r") auto
  have ne: "metadata \<noteq> []" using assms by auto
  then obtain ce where ce: "convert_calculations_into_calculation_component_table metadata = Inr ce"
    by (simp add: convert_calculations_into_calculation_component_table_def)
  have "component_row (calc, source_table (Index r), xbrl_factoid (Index r)) r \<in> set ce"
    unfolding convert_mem [OF ce] using assms(1) c by blast
  then have "ce \<noteq> []" by auto
  with ce show ?thesis by blast
qed

text \<open>
  C4 (as the code has it). The flag \<open>in_explosion\<close> of a component is true exactly
  when at least one of its source tables is among the tables of the explosion.
  Whenever the metadata has some component, the method returns, and each metadata
  row is demoted to \<open>reported_value\<close> with empty calculations exactly when its
  factoid name is the factoid of a calculation with a component whose flag is
  false; every other row is returned as it was.
\<close>

theorem in_explosion_any_and_demotion:
  assumes "\<exists>r \<in> set meta. calculations r \<noteq> []"
  shows "(in_explosion_tables source_tables names \<longleftrightarrow>
            (\<exists>tbl \<in> set source_tables. tbl \<in> set names))
       \<and> (\<exists>removed.
            redefine_calculations_with_components_out_of_explosion names meta =
              Inr (map (\<lambda>m. if (\<exists>r \<in> set meta. xbrl_factoid (Index r) = xbrl_factoid (Index m)
                                     \<and> (\<exists>calc \<in> set (calculations r).
                                           \<not> in_explosion_tables (calc_source_tables calc) names))
                              then m\<lparr>calculations := [], row_type_xbrl := ''reported_value''\<rparr>
                              else m) meta,
                   removed))"
proof
  show "in_explosion_tables source_tables names \<longleftrightarrow>
          (\<exists>tbl \<in> set source_tables. tbl \<in> set names)"
    by (rule in_explosion_tables_iff)
next
  from assms obtain r where r: "r \<in> set meta" "calculations r \<noteq> []" by blast
  from convert_nonempty [OF r] obtain calc_explode where
    ce: "convert_calculations_into_calculation_component_table meta = Inr calc_explode"
    and ne: "calc_explode \<noteq> []" by blast
  let ?bad = "{f. \<exists>r \<in> set meta. xbrl_factoid (Index r) = f \<and> (\<exists>calc \<in> set (calculations r).
            \<not> in_explosion_tables (calc_source_tables calc) names)}"
  have s: "set (unique (map cc_xbrl_factoid (filter (\<lambda>r. \<not> in_explosion names r) calc_explode)))
            = ?bad"
    using convert_not_in_factoids [OF ce, of names] by (simp add: set_unique)
  show "\<exists>removed.
            redefine_calculations_with_components_out_of_explosion names meta =
              Inr (map (\<lambda>m. if (\<exists>r \<in> set meta. xbrl_factoid (Index r) = xbrl_factoid (Index m)
                                     \<and> (\<exists>calc \<in> set (calculations r).
                                           \<not> in_explosion_tables (calc_source_tables calc) names))
                              then m\<lparr>calculations := [], row_type_xbrl := ''reported_value''\<rparr>
                              else m) meta,
                   removed)"
    using ce ne
    by (simp add: redefine_calculations_with_components_out_of_explosion_def Let_def s
        del: set_map)
qed

theorem in_explosion_any_and_demotion_witness:
  "(\<exists>r \<in> set [\<lparr>Index = NodeId ''a'' ''x'',
                   calculations = [\<lparr>calc_name = ''y'', calc_weight = 1,
                                    calc_source_tables = [''a'', ''z'']\<rparr>],
                   row_type_xbrl = ''calculated_value'', xbrl_factoid_original = ''x'',
                   intra_table_calc_flag = True\<rparr>,
                 \<lparr>Index = NodeId ''a'' ''w'',
                   calculations = [\<lparr>calc_name = ''v'', calc_weight = 1,
                                    calc_source_tables = [''z'']\<rparr>],
                   row_type_xbrl = ''calculated_value'', xbrl_factoid_original = ''w'',
                   intra_table_calc_flag = False\<rparr>]. calculations r \<noteq> [])
   \<and> (\<exists>removed.
        redefine_calculations_with_components_out_of_explosion [''a'']
          [\<lparr>Index = NodeId ''a'' ''x'',
             calculations = [\<lparr>calc_name = ''y'', calc_weight = 1,
                              calc_source_tables = [''a'', ''z'']\<rparr>],
             row_type_xbrl = ''calculated_value'', xbrl_factoid_original = ''x'',
             intra_table_calc_flag = True\<rparr>,
           \<lparr>Index = NodeId ''a'' ''w'',
             calculations = [\<lparr>calc_name = ''v'', calc_weight = 1,
                              calc_source_tables = [''z'']\<rparr>],
             row_type_xbrl = ''calculated_value'', xbrl_factoid_original = ''w'',
             intra_table_calc_flag = False\<rparr>]
        = Inr ([\<lparr>Index = NodeId ''a'' ''x'',
                  calculations = [\<lparr>calc_name = ''y'', calc_weight = 1,
                                   calc_source_tables = [''a'', ''z'']\<rparr>],
                  row_type_xbrl = ''calculated_value'', xbrl_factoid_original = ''x'',
                  intra_table_calc_flag = True\<rparr>,
                \<lparr>Index = NodeId ''a'' ''w'', calculations = [],
                  row_type_xbrl = ''reported_value'', xbrl_factoid_original = ''w'',
                  intra_table_calc_flag = False\<rparr>], removed))"
  using in_explosion_any_and_demotion
    [of "[\<lparr>Index = NodeId ''a'' ''x'',
             calculations = [\<lparr>calc_name = ''y'', calc_weight = 1,
                              calc_source_tables = [''a'', ''z'']\<rparr>],
             row_type_xbrl = ''calculated_value'', xbrl_factoid_original = ''x'',
             intra_table_calc_flag = True\<rparr>,
           \<lparr>Index = NodeId ''a'' ''w'',
             calculations = [\<lparr>calc_name = ''v'', calc_weight = 1,
                              calc_source_tables = [''z'']\<rparr>],
             row_type_xbrl = ''calculated_value'', xbrl_factoid_original = ''w'',
             intra_table_calc_flag = False\<rparr>]" "[]" "[''a'']"]
  by (simp add: in_explosion_tables_def)

text \<open>
  The claim as written asks for every source table of the component to be among the
  exploded tables. The component \<open>y\<close> of the factoid \<open>x\<close> below is drawn from the
  tables \<open>a\<close> and \<open>z\<close>, only \<open>a\<close> is exploded, yet its flag is true, and \<open>x\<close> keeps
  its calculation and its row type.
\<close>

theorem in_explosion_every_counterexample:
  "in_explosion_tables [''a'', ''z''] [''a'']
   \<and> ''z'' \<notin> set [''a'']
   \<and> redefine_calculations_with_components_out_of_explosion [''a'']
        [\<lparr>Index = NodeId ''a'' ''x'',
           calculations = [\<lparr>calc_name = ''y'', calc_weight = 1,
                            calc_source_tables = [''a'', ''z'']\<rparr>],
           row_type_xbrl = ''calculated_value'', xbrl_factoid_original = ''x'',
           intra_table_calc_flag = True\<rparr>]
      = Inr ([\<lparr>Index = NodeId ''a'' ''x'',
                calculations = [\<lparr>calc_name = ''y'', calc_weight = 1,
                                 calc_source_tables = [''a'', ''z'']\<rparr>],
                row_type_xbrl = ''calculated_value'', xbrl_factoid_original = ''x'',
                intra_table_calc_flag = True\<rparr>], [])"
  by (simp add: in_explosion_tables_def redefine_calculations_with_components_out_of_explosion_def
      convert_calculations_into_calculation_component_table_def calc_dfs_def
      merge_on_factoid_and_table_def component_row_def in_explosion_def)

subsection \<open>Reconciliation of inter-table calculations\<close>














subsection \<open>Graph construction on concrete metadata\<close>

text \<open>
  C5 (the code at the failing input). The node \<open>x\<close> is a component of \<open>p1\<close> with
  weight 1 and of \<open>p2\<close> with weight -1. The weights differ and their product is -1,
  so the construction goes on, but the weight recorded for \<open>x\<close> stays the first one,
  1: the statement that should set it to -1 is a comparison.
\<close>

theorem weight_conflict_keeps_first_weight:
  "exploded_meta_to_digraph
     [\<lparr>Index = NodeId ''t'' ''p1'',
        calculations = [\<lparr>calc_name = ''x'', calc_weight = 1, calc_source_tables = [''t'']\<rparr>],
        row_type_xbrl = ''calculated_value'', xbrl_factoid_original = ''p1'',
        intra_table_calc_flag = True\<rparr>,
      \<lparr>Index = NodeId ''t'' ''p2'',
        calculations = [\<lparr>calc_name = ''x'', calc_weight = - 1, calc_source_tables = [''t'']\<rparr>],
        row_type_xbrl = ''calculated_value'', xbrl_factoid_original = ''p2'',
        intra_table_calc_flag = True\<rparr>,
      \<lparr>Index = NodeId ''t'' ''x'', calculations = [],
        row_type_xbrl = ''reported_value'', xbrl_factoid_original = ''x'',
        intra_table_calc_flag = True\<rparr>] []
   = Inr \<lparr>nodes =
        [(NodeId ''t'' ''p1'',
          \<lparr>attr_xbrl_factoid_original = Some ''p1'', attr_weight = None, attr_tags = Some []\<rparr>),
         (NodeId ''t'' ''x'',
          \<lparr>attr_xbrl_factoid_original = Some ''x'', attr_weight = Some 1, attr_tags = Some []\<rparr>),
         (NodeId ''t'' ''p2'',
          \<lparr>attr_xbrl_factoid_original = Some ''p2'', attr_weight = None, attr_tags = Some []\<rparr>)],
        edges =
          [(NodeId ''t'' ''p1'', NodeId ''t'' ''x''),
           (NodeId ''t'' ''p2'', NodeId ''t'' ''x'')]\<rparr>"
  by code_simp

text \<open>
  C3 (the code at the failing input). The forest is the single edge from \<open>root\<close> to
  \<open>leaf\<close> with weight -1; the data row of \<open>leaf\<close> has the starting balance 10 and the
  ending balance 20. The result has the starting balance -10, and the ending balance
  10: it is computed from the starting balance already multiplied, not from the
  reported ending balance 20.
\<close>

theorem leafy_data_ending_balance_from_starting_balance:
  "leafy_data
     \<lparr>exploded_meta =
        [\<lparr>Index = NodeId ''t'' ''root'',
           calculations = [\<lparr>calc_name = ''leaf'', calc_weight = - 1,
                            calc_source_tables = [''t'']\<rparr>],
           row_type_xbrl = ''calculated_value'', xbrl_factoid_original = ''root'',
           intra_table_calc_flag = True\<rparr>,
         \<lparr>Index = NodeId ''t'' ''leaf'', calculations = [],
           row_type_xbrl = ''reported_value'', xbrl_factoid_original = ''leaf'',
           intra_table_calc_flag = True\<rparr>],
      seeds = [NodeId ''t'' ''root''], tags = []\<rparr>
     [\<lparr>b_table_name = ''t'', b_xbrl_factoid = ''leaf'',
       starting_balance = Some 10, ending_balance = Some 20\<rparr>]
   = Inr [\<lparr>ld_meta =
             \<lparr>lm_source_table = ''t'', lm_xbrl_factoid = ''leaf'',
              lm_root_table = ''t'', lm_root_xbrl_factoid = ''root'',
              lm_xbrl_factoid_original = ''leaf'', lm_weight = - 1, lm_tags = []\<rparr>,
           ld_data = Some \<lparr>b_table_name = ''t'', b_xbrl_factoid = ''leaf'',
                            starting_balance = Some 10, ending_balance = Some 20\<rparr>,
           ld_starting_balance = Some (- 10), ld_ending_balance = Some 10\<rparr>]"
  by code_simp

subsection \<open>Pruning on concrete metadata\<close>


text \<open>
  The scenario of C1 as written: the edges \<open>a \<rightarrow> b\<close>, \<open>b \<rightarrow> c\<close> and \<open>b \<rightarrow> c_correction\<close>, where
  the correction carries the name of the child \<open>c\<close>. The node \<open>b\<close> is not found to be
  a passthrough, and the forest is the seeded digraph: \<open>b\<close> is still a node and
  there is no edge from \<open>a\<close> to \<open>c\<close>.
\<close>

theorem passthrough_child_correction_counterexample:
  "forest
     \<lparr>exploded_meta =
        [\<lparr>Index = NodeId ''t'' ''a'',
           calculations = [\<lparr>calc_name = ''b'', calc_weight = 1, calc_source_tables = [''t'']\<rparr>],
           row_type_xbrl = ''calculated_value'', xbrl_factoid_original = ''a'',
           intra_table_calc_flag = True\<rparr>,
         \<lparr>Index = NodeId ''t'' ''b'',
           calculations = [\<lparr>calc_name = ''c'', calc_weight = 1, calc_source_tables = [''t'']\<rparr>,
                           \<lparr>calc_name = ''c_correction'', calc_weight = 1,
                            calc_source_tables = [''t'']\<rparr>],
           row_type_xbrl = ''calculated_value'', xbrl_factoid_original = ''b'',
           intra_table_calc_flag = True\<rparr>,
         \<lparr>Index = NodeId ''t'' ''c'', calculations = [],
           row_type_xbrl = ''reported_value'', xbrl_factoid_original = ''c'',
           intra_table_calc_flag = True\<rparr>,
         \<lparr>Index = NodeId ''t'' ''c_correction'', calculations = [],
           row_type_xbrl = ''correction'', xbrl_factoid_original = ''c_correction'',
           intra_table_calc_flag = True\<rparr>],
      seeds = [NodeId ''t'' ''a''], tags = []\<rparr>
   = Inr \<lparr>nodes =
        [(NodeId ''t'' ''a'',
          \<lparr>attr_xbrl_factoid_original = Some ''a'', attr_weight = None, attr_tags = Some []\<rparr>),
         (NodeId ''t'' ''b'',
          \<lparr>attr_xbrl_factoid_original = Some ''b'', attr_weight = Some 1, attr_tags = Some []\<rparr>),
         (NodeId ''t'' ''c'',
          \<lparr>attr_xbrl_factoid_original = Some ''c'', attr_weight = Some 1, attr_tags = Some []\<rparr>),
         (NodeId ''t'' ''c_correction'',
          \<lparr>attr_xbrl_factoid_original = Some ''c_correction'', attr_weight = Some 1,
           attr_tags = Some []\<rparr>)],
        edges =
          [(NodeId ''t'' ''a'', NodeId ''t'' ''b''),
           (NodeId ''t'' ''b'', NodeId ''t'' ''c''),
           (NodeId ''t'' ''b'', NodeId ''t'' ''c_correction'')]\<rparr>"
  by code_simp

subsection \<open>Pruning: general properties\<close>


lemma edges_add_node [simp]: "edges (add_node n g) = edges g"
  by (simp add: add_node_def)

lemma edges_add_edge: "set (edges (add_edge u v g)) = insert (u, v) (set (edges g))"
  by (auto simp: add_edge_def Let_def)

lemma nodes_add_edge_nonempty: "nodes (add_edge u v g) \<noteq> []"
  by (auto simp: add_edge_def Let_def add_node_def node_list_def)

lemma remove_nodes_from_nothing: "remove_nodes_from [] g = g"
  by (simp add: remove_nodes_from_def)

lemma endswith_append: "endswith (s @ suffix) suffix"
  by (simp add: endswith_def)

lemma replace_passthrough_result:
  assumes "replace_passthrough h node = Inr h'"
  shows "\<exists>p c. predecessors h node = [p]
           \<and> filter (\<lambda>n. \<not> endswith (xbrl_factoid n) ''_correction'') (successors h node) = [c]
           \<and> length (successors h node) = 2
           \<and> h' = add_edge p c h"
proof -
  from assms have n: "node \<in> set (node_list h)"
    and lp: "length (predecessors h node) = 1"
    and ls: "length (successors h node) = 2"
    and lc: "length (filter (\<lambda>n. \<not> endswith (xbrl_factoid n) ''_correction'')
                (successors h node)) = 1"
    by (auto simp: replace_passthrough_def list_of_iterator_def Let_def split: if_splits)
  from lp obtain p where p: "predecessors h node = [p]"
    by (cases "predecessors h node") auto
  from lc obtain c where c:
    "filter (\<lambda>n. \<not> endswith (xbrl_factoid n) ''_correction'') (successors h node) = [c]"
    by (cases "filter (\<lambda>n. \<not> endswith (xbrl_factoid n) ''_correction'') (successors h node)")
       auto
  from assms n lp ls lc have "h' = add_edge p c h"
    by (simp add: replace_passthrough_def list_of_iterator_def Let_def p c
        remove_nodes_from_nothing)
  with p c ls show ?thesis by blast
qed

lemma replace_passthrough_edges:
  "replace_passthrough h node = Inr h' \<Longrightarrow> set (edges h) \<subseteq> set (edges h')"
  by (auto dest!: replace_passthrough_result simp: edges_add_edge)

lemma for_each_replace_edges:
  "for_each replace_passthrough ps h = Inr f \<Longrightarrow> set (edges h) \<subseteq> set (edges f)"
proof (induction ps arbitrary: h)
  case Nil
  then show ?case by simp
next
  case (Cons x xs)
  from Cons.prems obtain h' where s: "replace_passthrough h x = Inr h'"
    and r: "for_each replace_passthrough xs h' = Inr f"
    by (auto split: sum.splits)
  from replace_passthrough_edges [OF s] Cons.IH [OF r] show ?case by blast
qed

lemma for_each_replace_adds_edge:
  assumes "for_each replace_passthrough ps h = Inr f"
      and "B \<in> set ps"
      and "(A, B) \<in> set (edges h)"
      and "(B, C) \<in> set (edges h)"
      and "\<not> endswith (xbrl_factoid C) ''_correction''"
  shows "(A, C) \<in> set (edges f)"
  using assms
proof (induction ps arbitrary: h)
  case Nil
  then show ?case by simp
next
  case (Cons x xs)
  from Cons.prems(1) obtain h' where s: "replace_passthrough h x = Inr h'"
    and r: "for_each replace_passthrough xs h' = Inr f"
    by (auto split: sum.splits)
  have sub: "set (edges h) \<subseteq> set (edges h')" by (rule replace_passthrough_edges [OF s])
  show ?case
  proof (cases "x = B")
    case True
    from replace_passthrough_result [OF s] obtain p c where
      p: "predecessors h B = [p]" and
      c: "filter (\<lambda>n. \<not> endswith (xbrl_factoid n) ''_correction'') (successors h B) = [c]" and
      h': "h' = add_edge p c h"
      unfolding True by blast
    have "A \<in> set (predecessors h B)"
      using Cons.prems(3) by (force simp: predecessors_def)
    then have pa: "p = A" unfolding p by simp
    have "C \<in> set (successors h B)"
      using Cons.prems(4) by (force simp: successors_def)
    then have "C \<in> set (filter (\<lambda>n. \<not> endswith (xbrl_factoid n) ''_correction'')
                           (successors h B))"
      using Cons.prems(5) by simp
    then have ca: "c = C" unfolding c by simp
    have "(A, C) \<in> set (edges h')" unfolding h' pa ca by (simp add: edges_add_edge)
    with for_each_replace_edges [OF r] show ?thesis by blast
  next
    case False
    with Cons.prems(2) have "B \<in> set xs" by simp
    from Cons.IH [OF r this] sub Cons.prems(3,4,5) show ?thesis by blast
  qed
qed

lemma correction_child_eq:
  "(source_table n = source_table child \<and> xbrl_factoid child = xbrl_factoid n @ ''_correction'')
     \<longleftrightarrow> child = NodeId (source_table n) (xbrl_factoid n @ ''_correction'')"
  by (cases child) auto

lemma passthroughs_of_iff:
  "B \<in> set (passthroughs_of g) \<longleftrightarrow>
     B \<in> set (node_list g) \<and> in_degree g B = 1 \<and> out_degree g B = 2
     \<and> NodeId (source_table B) (xbrl_factoid B @ ''_correction'') \<in> set (successors g B)"
  by (auto simp: passthroughs_of_def Let_def correction_child_eq)

text \<open>
  C1 (as the code has it). Let \<open>B\<close> be a passthrough of the seeded digraph: a node
  with one parent and two children, one of which is the correction of \<open>B\<close> itself
  (the table of \<open>B\<close>, the factoid of \<open>B\<close> followed by \<open>_correction\<close>). Let \<open>A\<close> be its
  parent and \<open>C\<close> its other child, whose factoid does not end in \<open>_correction\<close>. Then
  every forest the pruning returns has the edge from \<open>A\<close> to \<open>C\<close>; and if \<open>B\<close> is the
  only passthrough, the pruning does return a forest.
\<close>

theorem passthrough_adds_parent_child_edge:
  assumes "B \<in> set (passthroughs_of g)"
      and "(A, B) \<in> set (edges g)"
      and "(B, C) \<in> set (edges g)"
      and "\<not> endswith (xbrl_factoid C) ''_correction''"
  shows "(\<forall>f. forest_of g = Inr f \<longrightarrow> (A, C) \<in> set (edges f))
       \<and> (passthroughs_of g = [B] \<longrightarrow> (\<exists>f. forest_of g = Inr f))"
proof (intro conjI allI impI)
  fix f assume "forest_of g = Inr f"
  then have "for_each replace_passthrough (passthroughs_of g) g = Inr f"
    by (auto simp: forest_of_def split: sum.splits if_splits)
  from for_each_replace_adds_edge [OF this assms] show "(A, C) \<in> set (edges f)" .
next
  assume only: "passthroughs_of g = [B]"
  let ?Bc = "NodeId (source_table B) (xbrl_factoid B @ ''_correction'')"
  from assms(1) have n: "B \<in> set (node_list g)" and i: "in_degree g B = 1"
    and out: "out_degree g B = 2" and bc: "?Bc \<in> set (successors g B)"
    unfolding passthroughs_of_iff by blast+
  have "A \<in> set (predecessors g B)" using assms(2) by (force simp: predecessors_def)
  moreover from i obtain p where "predecessors g B = [p]"
    unfolding in_degree_def by (cases "predecessors g B") auto
  ultimately have p: "predecessors g B = [A]" by simp
  have cs: "C \<in> set (successors g B)" using assms(3) by (force simp: successors_def)
  from out obtain x y where xy: "successors g B = [x, y]"
    unfolding out_degree_def
    by (cases "successors g B"; cases "tl (successors g B)") auto
  have corr: "endswith (xbrl_factoid ?Bc) ''_correction''" by (simp add: endswith_append)
  then have ne: "C \<noteq> ?Bc" using assms(4) by auto
  have c: "filter (\<lambda>n. \<not> endswith (xbrl_factoid n) ''_correction'') (successors g B) = [C]"
    using xy cs bc ne corr assms(4) by auto
  have "replace_passthrough g B = Inr (add_edge A C g)"
    using n p xy c
    by (simp add: replace_passthrough_def list_of_iterator_def Let_def remove_nodes_from_nothing)
  then show "\<exists>f. forest_of g = Inr f"
    by (simp add: forest_of_def only nodes_add_edge_nonempty)
qed







theorem passthrough_adds_parent_child_edge_witness:
  "NodeId ''t'' ''b'' \<in> set (passthroughs_of
      \<lparr>nodes =
         [(NodeId ''t'' ''a'', no_attrs), (NodeId ''t'' ''b'', no_attrs),
          (NodeId ''t'' ''c'', no_attrs), (NodeId ''t'' ''b_correction'', no_attrs)],
       edges =
         [(NodeId ''t'' ''a'', NodeId ''t'' ''b''),
          (NodeId ''t'' ''b'', NodeId ''t'' ''c''),
          (NodeId ''t'' ''b'', NodeId ''t'' ''b_correction'')]\<rparr>)
   \<and> \<not> endswith (xbrl_factoid (NodeId ''t'' ''c'')) ''_correction''
   \<and> (\<exists>f. forest_of
      \<lparr>nodes =
         [(NodeId ''t'' ''a'', no_attrs), (NodeId ''t'' ''b'', no_attrs),
          (NodeId ''t'' ''c'', no_attrs), (NodeId ''t'' ''b_correction'', no_attrs)],
       edges =
         [(NodeId ''t'' ''a'', NodeId ''t'' ''b''),
          (NodeId ''t'' ''b'', NodeId ''t'' ''c''),
          (NodeId ''t'' ''b'', NodeId ''t'' ''b_correction'')]\<rparr> = Inr f
        \<and> (NodeId ''t'' ''a'', NodeId ''t'' ''c'') \<in> set (edges f))"
proof -
  let ?g = "\<lparr>nodes =
         [(NodeId ''t'' ''a'', no_attrs), (NodeId ''t'' ''b'', no_attrs),
          (NodeId ''t'' ''c'', no_attrs), (NodeId ''t'' ''b_correction'', no_attrs)],
       edges =
         [(NodeId ''t'' ''a'', NodeId ''t'' ''b''),
          (NodeId ''t'' ''b'', NodeId ''t'' ''c''),
          (NodeId ''t'' ''b'', NodeId ''t'' ''b_correction'')]\<rparr>"
  have pt: "passthroughs_of ?g = [NodeId ''t'' ''b'']" by code_simp
  then have 1: "NodeId ''t'' ''b'' \<in> set (passthroughs_of ?g)" by simp
  have 2: "(NodeId ''t'' ''a'', NodeId ''t'' ''b'') \<in> set (edges ?g)" by simp
  have 3: "(NodeId ''t'' ''b'', NodeId ''t'' ''c'') \<in> set (edges ?g)" by simp
  have 4: "\<not> endswith (xbrl_factoid (NodeId ''t'' ''c'')) ''_correction''"
    by (simp add: endswith_def)
  from passthrough_adds_parent_child_edge [OF 1 2 3 4] pt
  have "\<exists>f. forest_of ?g = Inr f \<and> (NodeId ''t'' ''a'', NodeId ''t'' ''c'') \<in> set (edges f)"
    by blast
  with 1 4 show ?thesis by blast
qed


subsection \<open>Leaf weights\<close>




























end
